theory Spec2Isabelle
  imports Complex_Main "HOL-Library.AList"
begin

section \<open>Data model (righttyper\_types.py)\<close>

type_synonym Filename = string
type_synonym FunctionName = string
type_synonym ArgumentName = string

text \<open>Exceptions the modelled code can raise.\<close>

datatype error = TypeError | AttributeError | KeyError | IndexError | AssertionError | ZeroDivisionError

text \<open>
  \<^verbatim>\<open>@dataclass(eq=True, frozen=True) class FuncInfo: file_name; func_name\<close>
\<close>

record FuncInfo =
  file_name :: Filename
  func_name :: FunctionName

text \<open>
  A live runtime type object, as far as the code looks at it: its identity (\<open>type\<close>
  compares by identity, so two type objects are equal exactly when they are the same
  object) and its truth value.  A class is truthy unless its metaclass defines
  \<open>__bool__\<close> or \<open>__len__\<close> and answers False or 0 for it.
\<close>

datatype TypeObj = TypeObj (type_id: nat) (truthy: bool)

text \<open>
  \<^verbatim>\<open>@dataclass(eq=True, frozen=True) class TypeInfo\<close> with the fields module, name,
  args (a tuple of TypeInfo or str), func, is\_bound and type\_obj.
\<close>

datatype TypeInfo =
  TypeInfo (module: string) (name: string) (args: "TypeArg list")
    (func: "FuncInfo option") (is_bound: bool) (type_obj: "TypeObj option")
and TypeArg = TI TypeInfo | Lit string


text \<open>
  The \<open>__eq__\<close> that \<^verbatim>\<open>@dataclass(eq=True)\<close> generates compares the tuples of all
  declared fields, \<open>(module, name, args, func, is_bound, type_obj)\<close>; no field is
  declared with \<open>compare=False\<close>.  Tuples compare element by element; a \<open>str\<close> and a
  \<open>TypeInfo\<close> are never equal.
\<close>

fun TypeInfo_eq :: "TypeInfo \<Rightarrow> TypeInfo \<Rightarrow> bool"
and tuple_eq :: "TypeArg list \<Rightarrow> TypeArg list \<Rightarrow> bool"
and TypeArg_eq :: "TypeArg \<Rightarrow> TypeArg \<Rightarrow> bool" where
  "TypeInfo_eq (TypeInfo m n as f b t) (TypeInfo m' n' as' f' b' t') =
     (m = m' \<and> n = n' \<and> tuple_eq as as' \<and> f = f' \<and> b = b' \<and> t = t')"
| "tuple_eq [] [] = True"
| "tuple_eq (x # xs) (y # ys) = (TypeArg_eq x y \<and> tuple_eq xs ys)"
| "tuple_eq [] (y # ys) = False"
| "tuple_eq (x # xs) [] = False"
| "TypeArg_eq (TI a) (TI b) = TypeInfo_eq a b"
| "TypeArg_eq (Lit s) (Lit s') = (s = s')"
| "TypeArg_eq (TI a) (Lit s') = False"
| "TypeArg_eq (Lit s) (TI b) = False"

text \<open>
  The generated \<open>__hash__\<close> (eq and frozen are both set) hashes the same tuple of all
  six fields.  The hashes of the primitive values are parameters: \<open>hstr\<close> for strings,
  \<open>hfunc\<close> for the \<open>func\<close> field, \<open>hbool\<close> for the flag, \<open>hobj\<close> for the \<open>type_obj\<close>
  field and \<open>htuple\<close> for combining the hashes of a tuple's elements.
\<close>

fun TypeInfo_hash ::
  "(string \<Rightarrow> int) \<Rightarrow> (FuncInfo option \<Rightarrow> int) \<Rightarrow> (bool \<Rightarrow> int) \<Rightarrow> (TypeObj option \<Rightarrow> int) \<Rightarrow>
   (int list \<Rightarrow> int) \<Rightarrow> TypeInfo \<Rightarrow> int"
and TypeArg_hash ::
  "(string \<Rightarrow> int) \<Rightarrow> (FuncInfo option \<Rightarrow> int) \<Rightarrow> (bool \<Rightarrow> int) \<Rightarrow> (TypeObj option \<Rightarrow> int) \<Rightarrow>
   (int list \<Rightarrow> int) \<Rightarrow> TypeArg \<Rightarrow> int" where
  "TypeInfo_hash hstr hfunc hbool hobj htuple (TypeInfo m n as f b t) =
     htuple [hstr m, hstr n, htuple (map (TypeArg_hash hstr hfunc hbool hobj htuple) as),
             hfunc f, hbool b, hobj t]"
| "TypeArg_hash hstr hfunc hbool hobj htuple (TI a) = TypeInfo_hash hstr hfunc hbool hobj htuple a"
| "TypeArg_hash hstr hfunc hbool hobj htuple (Lit s) = hstr s"

text \<open>\<^verbatim>\<open>TypeInfo.__str__\<close>, with \<^verbatim>\<open>", ".join\<close>.\<close>

fun join :: "string \<Rightarrow> string list \<Rightarrow> string" where
  "join sep [] = []"
| "join sep [x] = x"
| "join sep (x # y # ys) = x @ sep @ join sep (y # ys)"

fun TypeInfo_str :: "TypeInfo \<Rightarrow> string"
and TypeArg_str :: "TypeArg \<Rightarrow> string" where
  "TypeInfo_str (TypeInfo m n as f b t) =
     (let modul = (if m \<noteq> [] then m @ ''.'' else [])
      in if as \<noteq> [] then modul @ n @ ''['' @ join '', '' (map TypeArg_str as) @ '']''
         else modul @ n)"
| "TypeArg_str (TI a) = TypeInfo_str a"
| "TypeArg_str (Lit s) = s"

text \<open>\<^verbatim>\<open>TypeInfo.replace\<close> (dataclasses.replace) for the two fields the code replaces.\<close>

definition replace_args :: "TypeInfo \<Rightarrow> TypeArg list \<Rightarrow> TypeInfo" where
  "replace_args node new_args =
     TypeInfo (module node) (name node) new_args (func node) (is_bound node) (type_obj node)"

definition replace_type_obj :: "TypeInfo \<Rightarrow> TypeObj option \<Rightarrow> TypeInfo" where
  "replace_type_obj node obj =
     TypeInfo (module node) (name node) (args node) (func node) (is_bound node) obj"

text \<open>
  \<^verbatim>\<open>TypeInfo.Transformer.visit\<close>.  The method calls \<open>self.visit\<close> on every argument
  that is a TypeInfo, so a subclass's override is what runs on the arguments; \<open>self_visit\<close>
  stands for that bound method.
\<close>

definition Transformer_visit :: "(TypeInfo \<Rightarrow> TypeInfo) \<Rightarrow> TypeInfo \<Rightarrow> TypeInfo" where
  "Transformer_visit self_visit node =
     (let new_args = map (\<lambda>arg. case arg of TI a \<Rightarrow> TI (self_visit a) | Lit s \<Rightarrow> Lit s) (args node)
      in if new_args \<noteq> args node then replace_args node new_args else node)"

text \<open>
  The truth value of \<open>node.type_obj\<close>, as \<^verbatim>\<open>if node.type_obj:\<close> tests it: None is
  false, a type object has its own truth value.
\<close>

definition is_true :: "TypeObj option \<Rightarrow> bool" where
  "is_true t = (case t of None \<Rightarrow> False | Some obj \<Rightarrow> truthy obj)"

text \<open>
  \<^verbatim>\<open>RemoveTypeObjTransformer.visit\<close> (local class of \<open>mk_annotation\<close>):
  \<^verbatim>\<open>if node.type_obj: node = node.replace(type_obj=None); return super().visit(node)\<close>,
  with the body of the inherited \<open>visit\<close> written out for the recursion.
\<close>

fun RemoveTypeObj_visit :: "TypeInfo \<Rightarrow> TypeInfo"
and RemoveTypeObj_visit_arg :: "TypeArg \<Rightarrow> TypeArg" where
  "RemoveTypeObj_visit (TypeInfo m n as f b t) =
     (let node = (if is_true t then replace_type_obj (TypeInfo m n as f b t) None
                  else TypeInfo m n as f b t);
          new_args = map RemoveTypeObj_visit_arg as
      in if new_args \<noteq> as then replace_args node new_args else node)"
| "RemoveTypeObj_visit_arg (TI a) = TI (RemoveTypeObj_visit a)"
| "RemoveTypeObj_visit_arg (Lit s) = Lit s"

text \<open>
  \<^verbatim>\<open>@dataclass class ArgInfo: arg_name: ArgumentName; type_set: TypeInfoSet\<close>.
  \<open>record_function\<close> builds \<open>ArgInfo(ArgumentName(name), get_default_type(name))\<close>, so the
  second field holds the default's type or None.
\<close>

record ArgInfo =
  arg_name :: ArgumentName
  type_set :: "TypeInfo option"

text \<open>
  Attribute lookup on an ArgInfo instance: the instance has the two attributes its class
  declares, and reading any other name raises AttributeError.
\<close>

datatype attr_value = AttrStr string | AttrType "TypeInfo option"

definition ArgInfo_getattr :: "ArgInfo \<Rightarrow> string \<Rightarrow> error + attr_value" where
  "ArgInfo_getattr a n =
     (if n = ''arg_name'' then Inr (AttrStr (arg_name a))
      else if n = ''type_set'' then Inr (AttrType (type_set a))
      else Inl AttributeError)"

text \<open>
  \<^verbatim>\<open>FuncAnnotation\<close>: the argument list and the return value as \<open>mk_annotation\<close> fills
  them, with TypeInfo values.
\<close>

record FuncAnnotation =
  ann_args :: "(ArgumentName \<times> TypeInfo) list"
  retval :: TypeInfo

text \<open>
  Values passed positionally to a dataclass constructor, and \<open>FuncInfo.__init__\<close>: the
  generated initialiser takes exactly the declared fields \<open>file_name\<close> and \<open>func_name\<close>
  (two strings in this model, as \<open>Filename\<close> and \<open>FunctionName\<close> are); a call with
  another number of positional arguments raises TypeError.
\<close>

datatype pyval = PStr string | PInt int

definition FuncInfo_init :: "pyval list \<Rightarrow> error + FuncInfo" where
  "FuncInfo_init vs =
     (case vs of
        [PStr f, PStr n] \<Rightarrow> Inr \<lparr>file_name = f, func_name = n\<rparr>
      | _ \<Rightarrow> Inl TypeError)"

section \<open>The observation store (class Observations, righttyper.py)\<close>

text \<open>
  Modelled from the spec: the class \<open>Sample\<close> is imported from righttyper\_types but that
  file does not declare it.  The spec's data model gives it the argument
  descriptors, an optional receiver descriptor, a growing set of yield descriptors and a
  return descriptor set at most once; \<open>record_start\<close> builds it as
  \<^verbatim>\<open>Sample(arg_types, self_type=self_type)\<close>.
\<close>

record Sample =
  sample_args :: "TypeInfo list"
  self_type :: "TypeInfo option"
  yields :: "TypeInfo list"
  returns :: "TypeInfo option"

definition Sample_init :: "TypeInfo list \<Rightarrow> TypeInfo option \<Rightarrow> Sample" where
  "Sample_init arg_types st =
     \<lparr>sample_args = arg_types, self_type = st, yields = [], returns = None\<rparr>"

text \<open>
  Dictionaries are association lists in insertion order (\<open>map_of\<close> reads, \<open>AList.update\<close>
  stores in place or appends, \<open>AList.delete\<close> removes); sets are lists without
  repetition (\<open>List.insert\<close> adds).  \<open>samples\<close> is a \<open>defaultdict(set)\<close>.
\<close>

record Observations =
  functions_visited :: "(FuncInfo \<times> ArgInfo list) list"
  pending_samples :: "((FuncInfo \<times> int) \<times> Sample) list"
  samples :: "(FuncInfo \<times> TypeInfo list list) list"

definition samples_get :: "(FuncInfo \<times> TypeInfo list list) list \<Rightarrow> FuncInfo \<Rightarrow> TypeInfo list list" where
  "samples_get smp fn = (case map_of smp fn of None \<Rightarrow> [] | Some s \<Rightarrow> s)"

text \<open>\<^verbatim>\<open>self.samples[func].add(x)\<close>\<close>

definition samples_add ::
  "FuncInfo \<Rightarrow> TypeInfo list \<Rightarrow> (FuncInfo \<times> TypeInfo list list) list \<Rightarrow> (FuncInfo \<times> TypeInfo list list) list" where
  "samples_add fn x smp = AList.update fn (List.insert x (samples_get smp fn)) smp"

definition record_function ::
  "Observations \<Rightarrow> FuncInfo \<Rightarrow> string list \<Rightarrow> (string \<Rightarrow> TypeInfo option) \<Rightarrow> Observations" where
  "record_function self fn arg_names get_default_type =
     (if map_of (functions_visited self) fn = None
      then self\<lparr>functions_visited :=
             AList.update fn
               (map (\<lambda>name. \<lparr>arg_name = name, type_set = get_default_type name\<rparr>) arg_names)
               (functions_visited self)\<rparr>
      else self)"

definition record_start ::
  "Observations \<Rightarrow> FuncInfo \<Rightarrow> int \<Rightarrow> TypeInfo list \<Rightarrow> TypeInfo option \<Rightarrow> Observations" where
  "record_start self fn frame_id arg_types st =
     self\<lparr>pending_samples :=
            AList.update (fn, frame_id) (Sample_init arg_types st) (pending_samples self)\<rparr>"

definition record_yield ::
  "Observations \<Rightarrow> FuncInfo \<Rightarrow> int \<Rightarrow> TypeInfo \<Rightarrow> Observations \<times> bool" where
  "record_yield self fn frame_id yield_type =
     (case map_of (pending_samples self) (fn, frame_id) of
        Some sample \<Rightarrow>
          (self\<lparr>pending_samples :=
                  AList.update (fn, frame_id)
                    (sample\<lparr>yields := List.insert yield_type (yields sample)\<rparr>)
                    (pending_samples self)\<rparr>,
           True)
      | None \<Rightarrow> (self, False))"

text \<open>
  \<open>record_return\<close>; \<open>process\<close> stands for the method \<open>Sample.process\<close>, whose class is
  not declared in righttyper\_types.py.
\<close>

definition record_return ::
  "(Sample \<Rightarrow> TypeInfo list) \<Rightarrow> Observations \<Rightarrow> FuncInfo \<Rightarrow> int \<Rightarrow> TypeInfo \<Rightarrow> Observations \<times> bool" where
  "record_return process self fn frame_id return_type =
     (case map_of (pending_samples self) (fn, frame_id) of
        Some sample \<Rightarrow>
          (self\<lparr>samples := samples_add fn (process (sample\<lparr>returns := Some return_type\<rparr>)) (samples self),
                 pending_samples := AList.delete (fn, frame_id) (pending_samples self)\<rparr>,
           True)
      | None \<Rightarrow> (self, False))"

text \<open>
  Modelled from the spec: the module of \<open>righttyper.typeinfo.union_typeset\<close> is not among
  the source files.  The spec: identical descriptors collapse to one; differing descriptors combine into a
  union-of-types description (here a descriptor whose generic arguments are the members).
\<close>

definition union_typeset :: "TypeInfo list \<Rightarrow> TypeInfo" where
  "union_typeset ts =
     (case remdups ts of
        [t] \<Rightarrow> t
      | us \<Rightarrow> TypeInfo ''types'' ''UnionType'' (map TI us) None False None)"

text \<open>
  Modelled from the spec: the module of \<open>righttyper.typeinfo.generalize\<close> is not among the
  source files.  The spec:
  the finalized tuples are the rows of a table, each column is generalized to the union
  of its entries, and rows that do not agree on arity make the function ungeneralizable
  (the result None).
\<close>

definition generalize :: "TypeInfo list list \<Rightarrow> TypeInfo list option" where
  "generalize rows =
     (case rows of
        [] \<Rightarrow> Some []
      | r # rs \<Rightarrow>
          if list_all (\<lambda>s. length s = length r) rs
          then Some (map (\<lambda>i. union_typeset (map (\<lambda>s. s ! i) rows)) [0..<length r])
          else None)"

text \<open>
  Modelled from the spec: \<open>Sample.process\<close> is not among the source files.  The spec: the finalized
  tuple is \<open>(arg\<^sub>1, \<dots>, arg\<^sub>n, summary)\<close>, where the summary is the return type or, if
  any yields were recorded, a synthesized generator of the union of the yields that
  subsumes the return type.
\<close>

definition Sample_process :: "Sample \<Rightarrow> TypeInfo list" where
  "Sample_process s =
     sample_args s @
     [if yields s \<noteq> []
      then TypeInfo ''typing'' ''Generator''
             (TI (union_typeset (yields s)) # map TI (case returns s of None \<Rightarrow> [] | Some r \<Rightarrow> [r]))
             None False None
      else (case returns s of
              Some r \<Rightarrow> r
            | None \<Rightarrow> TypeInfo ''builtins'' ''NoneType'' [] None False None)]"

section \<open>Collecting annotations (Observations.collect\_annotations)\<close>

text \<open>\<open>signature[i]\<close>: an index below zero is taken from the end, one out of range raises.\<close>

definition index :: "'a list \<Rightarrow> int \<Rightarrow> error + 'a" where
  "index xs i =
     (if 0 \<le> i \<and> i < int (length xs) then Inr (xs ! nat i)
      else if i < 0 \<and> - int (length xs) \<le> i then Inr (xs ! nat (int (length xs) + i))
      else Inl IndexError)"

text \<open>A comprehension whose element expression can raise: the first exception ends it.\<close>

fun map_result :: "('a \<Rightarrow> error + 'b) \<Rightarrow> 'a list \<Rightarrow> error + 'b list" where
  "map_result f [] = Inr []"
| "map_result f (x # xs) =
     (case f x of
        Inl e \<Rightarrow> Inl e
      | Inr y \<Rightarrow> (case map_result f xs of Inl e \<Rightarrow> Inl e | Inr ys \<Rightarrow> Inr (y # ys)))"

text \<open>
  What \<open>mk_annotation\<close> prints for a function it cannot generalize: the function and its
  samples, each descriptor rendered with \<open>str\<close>.
\<close>

datatype diagnostic = Error_generalizing FuncInfo "string list list"

text \<open>
  One element of the list comprehension of \<open>mk_annotation\<close>:
  \<^verbatim>\<open>(arg.arg_name, tr.visit(union_typeset({signature[i],
       *((arg.default,) if arg.default is not None else ())})))\<close>.
  The set display evaluates \<open>signature[i]\<close>, then the condition \<open>arg.default is not None\<close>.
  \<open>union_typeset\<close> is a parameter here; it receives the members of the set.
\<close>

definition annotate_arg ::
  "(TypeInfo list \<Rightarrow> TypeInfo) \<Rightarrow> TypeInfo list \<Rightarrow> nat \<times> ArgInfo \<Rightarrow> error + (ArgumentName \<times> TypeInfo)" where
  "annotate_arg union_ts signature ia =
     (case ia of (i, arg) \<Rightarrow>
        (case index signature (int i) of
           Inl e \<Rightarrow> Inl e
         | Inr s_i \<Rightarrow>
             (case ArgInfo_getattr arg ''default'' of
                Inl e \<Rightarrow> Inl e
              | Inr (AttrType None) \<Rightarrow> Inr (arg_name arg, RemoveTypeObj_visit (union_ts [s_i]))
              | Inr (AttrType (Some d)) \<Rightarrow>
                  Inr (arg_name arg, RemoveTypeObj_visit (union_ts (remdups [s_i, d])))
              | Inr (AttrStr s) \<Rightarrow> Inl TypeError)))"

text \<open>
  \<open>mk_annotation\<close>, with what it prints.  \<open>generalize\<close> and \<open>union_typeset\<close> are
  parameters.  Both callers pass a key of \<open>self.samples\<close>, so reading
  \<open>self.samples[t]\<close> never adds an entry to the defaultdict.
\<close>

definition mk_annotation ::
  "(TypeInfo list list \<Rightarrow> TypeInfo list option) \<Rightarrow> (TypeInfo list \<Rightarrow> TypeInfo) \<Rightarrow>
   Observations \<Rightarrow> FuncInfo \<Rightarrow> diagnostic list \<times> (error + FuncAnnotation option)" where
  "mk_annotation gen union_ts self t =
     (case map_of (functions_visited self) t of
        None \<Rightarrow> ([], Inl KeyError)
      | Some arginfos \<Rightarrow>
          (let smp = samples_get (samples self) t in
           case gen smp of
             None \<Rightarrow> ([Error_generalizing t (map (map TypeInfo_str) smp)], Inr None)
           | Some signature \<Rightarrow>
               ([],
                case map_result (annotate_arg union_ts signature) (enumerate 0 arginfos) of
                  Inl e \<Rightarrow> Inl e
                | Inr as \<Rightarrow>
                    (case index signature (- 1) of
                       Inl e \<Rightarrow> Inl e
                     | Inr r \<Rightarrow> Inr (Some \<lparr>ann_args = as, retval = RemoveTypeObj_visit r\<rparr>)))))"

text \<open>
  The transformer \<open>T\<close> of \<open>collect_annotations\<close>: a callable descriptor without generic
  arguments whose function has samples is replaced by \<open>typing.Callable\<close> with the
  function's own annotation; every other node is handled by the inherited \<open>visit\<close>.
\<close>

definition callable_of :: "bool \<Rightarrow> FuncAnnotation \<Rightarrow> TypeInfo" where
  "callable_of bound ann =
     TypeInfo ''typing'' ''Callable''
       [Lit (''['' @ join '', '' (map (\<lambda>a. TypeInfo_str (snd a)) (drop (if bound then 1 else 0) (ann_args ann))) @ '']''),
        TI (retval ann)]
       None False None"

fun T_visit ::
  "(TypeInfo list list \<Rightarrow> TypeInfo list option) \<Rightarrow> (TypeInfo list \<Rightarrow> TypeInfo) \<Rightarrow>
   Observations \<Rightarrow> TypeInfo \<Rightarrow> diagnostic list \<times> (error + TypeInfo)"
and T_visit_args ::
  "(TypeInfo list list \<Rightarrow> TypeInfo list option) \<Rightarrow> (TypeInfo list \<Rightarrow> TypeInfo) \<Rightarrow>
   Observations \<Rightarrow> TypeArg list \<Rightarrow> diagnostic list \<times> (error + TypeArg list)" where
  "T_visit gen union_ts self (TypeInfo m n as f b t) =
     (case (case f of
              Some fi \<Rightarrow>
                if as = [] \<and> map_of (samples self) fi \<noteq> None
                then mk_annotation gen union_ts self fi
                else ([], Inr None)
            | None \<Rightarrow> ([], Inr None)) of
        (out, Inl e) \<Rightarrow> (out, Inl e)
      | (out, Inr (Some ann)) \<Rightarrow> (out, Inr (callable_of b ann))
      | (out, Inr None) \<Rightarrow>
          (case T_visit_args gen union_ts self as of
             (out', Inl e) \<Rightarrow> (out @ out', Inl e)
           | (out', Inr new_args) \<Rightarrow>
               (out @ out',
                Inr (if new_args \<noteq> as then replace_args (TypeInfo m n as f b t) new_args
                     else TypeInfo m n as f b t))))"
| "T_visit_args gen union_ts self [] = ([], Inr [])"
| "T_visit_args gen union_ts self (Lit s # rest) =
     (case T_visit_args gen union_ts self rest of
        (out, Inl e) \<Rightarrow> (out, Inl e)
      | (out, Inr new_rest) \<Rightarrow> (out, Inr (Lit s # new_rest)))"
| "T_visit_args gen union_ts self (TI a # rest) =
     (case T_visit gen union_ts self a of
        (out, Inl e) \<Rightarrow> (out, Inl e)
      | (out, Inr a') \<Rightarrow>
          (case T_visit_args gen union_ts self rest of
             (out', Inl e) \<Rightarrow> (out @ out', Inl e)
           | (out', Inr new_rest) \<Rightarrow> (out @ out', Inr (TI a' # new_rest))))"

text \<open>
  \<open>_transform_types\<close>, specialised to the transformer \<open>T\<close> it is called with.  The store
  is rewritten while it is traversed: every visit reads the store as the earlier
  replacements left it.  \<^verbatim>\<open>tuple(tr.visit(t) for t in s)\<close> is \<open>visit_tuple\<close>.
\<close>

fun visit_tuple ::
  "(TypeInfo list list \<Rightarrow> TypeInfo list option) \<Rightarrow> (TypeInfo list \<Rightarrow> TypeInfo) \<Rightarrow>
   Observations \<Rightarrow> TypeInfo list \<Rightarrow> diagnostic list \<times> (error + TypeInfo list)" where
  "visit_tuple gen union_ts self [] = ([], Inr [])"
| "visit_tuple gen union_ts self (t # ts) =
     (case T_visit gen union_ts self t of
        (out, Inl e) \<Rightarrow> (out, Inl e)
      | (out, Inr t') \<Rightarrow>
          (case visit_tuple gen union_ts self ts of
             (out', Inl e) \<Rightarrow> (out @ out', Inl e)
           | (out', Inr ts') \<Rightarrow> (out @ out', Inr (t' # ts'))))"

definition transform_sample ::
  "(TypeInfo list list \<Rightarrow> TypeInfo list option) \<Rightarrow> (TypeInfo list \<Rightarrow> TypeInfo) \<Rightarrow>
   Observations \<Rightarrow> FuncInfo \<Rightarrow> TypeInfo list \<Rightarrow> Observations \<times> diagnostic list \<times> error option" where
  "transform_sample gen union_ts self k s =
     (case visit_tuple gen union_ts self s of
        (out, Inl e) \<Rightarrow> (self, out, Some e)
      | (out, Inr sprime) \<Rightarrow>
          if sprime \<noteq> s
          then (let sample_set = samples_get (samples self) k in
                if s \<in> set sample_set
                then (self\<lparr>samples :=
                              AList.update k (List.insert sprime (removeAll s sample_set)) (samples self)\<rparr>,
                      out, None)
                else (self, out, Some KeyError))
          else (self, out, None))"

fun transform_set ::
  "(TypeInfo list list \<Rightarrow> TypeInfo list option) \<Rightarrow> (TypeInfo list \<Rightarrow> TypeInfo) \<Rightarrow>
   Observations \<Rightarrow> FuncInfo \<Rightarrow> TypeInfo list list \<Rightarrow> Observations \<times> diagnostic list \<times> error option" where
  "transform_set gen union_ts self k [] = (self, [], None)"
| "transform_set gen union_ts self k (s # rest) =
     (case transform_sample gen union_ts self k s of
        (self', out, Some e) \<Rightarrow> (self', out, Some e)
      | (self', out, None) \<Rightarrow>
          (case transform_set gen union_ts self' k rest of
             (self'', out', r) \<Rightarrow> (self'', out @ out', r)))"

fun transform_keys ::
  "(TypeInfo list list \<Rightarrow> TypeInfo list option) \<Rightarrow> (TypeInfo list \<Rightarrow> TypeInfo) \<Rightarrow>
   Observations \<Rightarrow> FuncInfo list \<Rightarrow> Observations \<times> diagnostic list \<times> error option" where
  "transform_keys gen union_ts self [] = (self, [], None)"
| "transform_keys gen union_ts self (k # ks) =
     (case transform_set gen union_ts self k (samples_get (samples self) k) of
        (self', out, Some e) \<Rightarrow> (self', out, Some e)
      | (self', out, None) \<Rightarrow>
          (case transform_keys gen union_ts self' ks of
             (self'', out', r) \<Rightarrow> (self'', out @ out', r)))"

definition transform_types ::
  "(TypeInfo list list \<Rightarrow> TypeInfo list option) \<Rightarrow> (TypeInfo list \<Rightarrow> TypeInfo) \<Rightarrow>
   Observations \<Rightarrow> Observations \<times> diagnostic list \<times> error option" where
  "transform_types gen union_ts self = transform_keys gen union_ts self (map fst (samples self))"

text \<open>
  The first loop of \<open>collect_annotations\<close>:
  \<^verbatim>\<open>for (func, _), sample in self.pending_samples.items():
      if sample.yields: self.samples[func].add(sample.process())\<close>
\<close>

fun finish_pending ::
  "(Sample \<Rightarrow> TypeInfo list) \<Rightarrow> ((FuncInfo \<times> int) \<times> Sample) list \<Rightarrow>
   (FuncInfo \<times> TypeInfo list list) list \<Rightarrow> (FuncInfo \<times> TypeInfo list list) list" where
  "finish_pending process [] smp = smp"
| "finish_pending process (((fn, frame_id), sample) # rest) smp =
     finish_pending process rest
       (if yields sample \<noteq> [] then samples_add fn (process sample) smp else smp)"

definition fold_pending :: "(Sample \<Rightarrow> TypeInfo list) \<Rightarrow> Observations \<Rightarrow> Observations" where
  "fold_pending process self =
     self\<lparr>samples := finish_pending process (pending_samples self) (samples self)\<rparr>"

text \<open>
  The final dictionary comprehension:
  \<^verbatim>\<open>{t: annotation for t in self.samples
      if (annotation := mk_annotation(t)) is not None}\<close>
\<close>

fun annotations ::
  "(TypeInfo list list \<Rightarrow> TypeInfo list option) \<Rightarrow> (TypeInfo list \<Rightarrow> TypeInfo) \<Rightarrow>
   Observations \<Rightarrow> FuncInfo list \<Rightarrow> diagnostic list \<times> (error + (FuncInfo \<times> FuncAnnotation) list)" where
  "annotations gen union_ts self [] = ([], Inr [])"
| "annotations gen union_ts self (t # ts) =
     (case mk_annotation gen union_ts self t of
        (out, Inl e) \<Rightarrow> (out, Inl e)
      | (out, Inr a) \<Rightarrow>
          (case annotations gen union_ts self ts of
             (out', Inl e) \<Rightarrow> (out @ out', Inl e)
           | (out', Inr m) \<Rightarrow>
               (out @ out', Inr (case a of None \<Rightarrow> m | Some ann \<Rightarrow> (t, ann) # m))))"

text \<open>
  \<open>collect_annotations\<close>: the store as the call leaves it, what was printed, and the
  returned dictionary or the exception that ended the call.
\<close>

definition collect_annotations ::
  "(TypeInfo list list \<Rightarrow> TypeInfo list option) \<Rightarrow> (TypeInfo list \<Rightarrow> TypeInfo) \<Rightarrow>
   (Sample \<Rightarrow> TypeInfo list) \<Rightarrow> Observations \<Rightarrow>
   Observations \<times> diagnostic list \<times> (error + (FuncInfo \<times> FuncAnnotation) list)" where
  "collect_annotations gen union_ts process self =
     (let self1 = fold_pending process self in
      case transform_types gen union_ts self1 of
        (self2, out, Some e) \<Rightarrow> (self2, out, Inl e)
      | (self2, out, None) \<Rightarrow>
          (case annotations gen union_ts self2 (map fst (samples self2)) of
             (out', r) \<Rightarrow> (self2, out @ out', r)))"

section \<open>Event handlers (righttyper.py)\<close>

text \<open>
  A code object: the attributes the handlers read (\<open>co_filename\<close>, \<open>co_firstlineno\<close>,
  \<open>co_qualname\<close>) and what the comparison of code objects looks at.  \<open>code ==
  frame.f_code\<close> compares the name, the first line number and the rest of the compiled
  function (argument counts, flags, bytecode, constants, names and tables, together
  \<open>co_rest\<close>); it does not compare the file name or the qualified name.
\<close>

record CodeType =
  co_filename :: string
  co_firstlineno :: int
  co_qualname :: string
  co_name :: string
  co_rest :: nat

definition code_eq :: "CodeType \<Rightarrow> CodeType \<Rightarrow> bool" where
  "code_eq a b =
     (co_name a = co_name b \<and> co_firstlineno a = co_firstlineno b \<and> co_rest a = co_rest b)"

text \<open>
  A frame with its code, its identity \<open>id(frame)\<close>, its caller \<open>f_back\<close> and what the
  inspection of its arguments gives \<open>process_function_arguments\<close>: the argument names,
  their types, the types of the defaults and the receiver's type.
\<close>

record ArgValues =
  arg_names :: "string list"
  arg_types :: "TypeInfo list"
  default_types :: "(string \<times> TypeInfo) list"
  receiver_type :: "TypeInfo option"

datatype Frame =
  Frame (f_code: CodeType) (frame_id: int) (f_args: ArgValues) (f_back: "Frame option")




text \<open>
  The option \<open>target_overhead\<close> is a float that the command line supplies, so it can also
  be an infinity or NaN.  \<open>div_100\<close> is \<^verbatim>\<open>options.target_overhead / 100.0\<close> and
  \<open>float_le\<close> is \<^verbatim>\<open><=\<close> between the (finite) estimate and that threshold: nothing is
  at most NaN.
\<close>

datatype pyfloat = Finite real | PosInf | NegInf | NaN



datatype monitoring = DISABLE

datatype event = PY_YIELD | PY_RETURN

record Options =
  sampling :: bool
  target_overhead :: pyfloat

definition process_function_arguments ::
  "Observations \<Rightarrow> FuncInfo \<Rightarrow> int \<Rightarrow> ArgValues \<Rightarrow> Observations" where
  "process_function_arguments self t fid av =
     record_start (record_function self t (arg_names av) (map_of (default_types av)))
       t fid (arg_types av) (receiver_type av)"

text \<open>
  The frame walks of the two handlers.  \<open>current\<close> is the value of
  \<open>inspect.currentframe()\<close>, the handler's own frame (None where the interpreter has no
  frame support).  \<open>enter_handler\<close> tests \<^verbatim>\<open>frame and frame.f_back\<close> and goes to
  \<open>frame.f_back\<close>; \<open>process_yield_or_return\<close>, called through \<open>yield_handler\<close> or
  \<open>return_handler\<close>, tests \<^verbatim>\<open>frame and frame.f_back and frame.f_back.f_back\<close> and goes
  to \<open>frame.f_back.f_back\<close>.  The result None means that the test failed.
\<close>

definition enter_frame :: "Frame option \<Rightarrow> Frame option" where
  "enter_frame current = (case current of None \<Rightarrow> None | Some fr \<Rightarrow> f_back fr)"

definition exit_frame :: "Frame option \<Rightarrow> Frame option" where
  "exit_frame current =
     (case current of
        None \<Rightarrow> None
      | Some fr \<Rightarrow> (case f_back fr of None \<Rightarrow> None | Some fr1 \<Rightarrow> f_back fr1))"

text \<open>
  \<open>enter_handler\<close>.  \<open>should_skip_function\<close> (righttyper\_runtime, not among the source
  files) is a parameter.
\<close>

definition enter_handler ::
  "(CodeType \<Rightarrow> bool) \<Rightarrow> Options \<Rightarrow> Observations \<Rightarrow> Frame option \<Rightarrow> CodeType \<Rightarrow>
   Observations \<times> (error + monitoring option)" where
  "enter_handler should_skip_function options self current code =
     (if should_skip_function code then (self, Inr (Some DISABLE))
      else
        (case enter_frame current of
           Some frame \<Rightarrow>
             if \<not> code_eq code (f_code frame) then (self, Inl AssertionError)
             else
               (case FuncInfo_init
                       [PStr (co_filename code), PInt (co_firstlineno code), PStr (co_qualname code)] of
                  Inl e \<Rightarrow> (self, Inl e)
                | Inr t \<Rightarrow>
                    (process_function_arguments self t (frame_id frame) (f_args frame),
                     Inr (if sampling options then Some DISABLE else None)))
         | None \<Rightarrow> (self, Inr (if sampling options then Some DISABLE else None))))"

text \<open>
  The statements of \<open>process_yield_or_return\<close> that follow the construction of the key
  \<open>t\<close> (lines 371 to 382): the type of the value is taken, the signal is recorded as a
  yield or as a return, and the handler answers DISABLE if sampling is on and the sample
  was found, and None otherwise.  \<open>get_value_type\<close> (righttyper\_runtime) and
  \<open>Sample.process\<close> are parameters.
\<close>

definition correlate_signal ::
  "('v \<Rightarrow> TypeInfo) \<Rightarrow> (Sample \<Rightarrow> TypeInfo list) \<Rightarrow> Options \<Rightarrow> Observations \<Rightarrow>
   FuncInfo \<Rightarrow> Frame \<Rightarrow> 'v \<Rightarrow> event \<Rightarrow> Observations \<times> monitoring option" where
  "correlate_signal get_value_type process options self t frame return_value event_type =
     (let typeinfo = get_value_type return_value;
          r = (if event_type = PY_YIELD
               then record_yield self t (frame_id frame) typeinfo
               else record_return process self t (frame_id frame) typeinfo)
      in (fst r, if sampling options \<and> snd r then Some DISABLE else None))"

text \<open>
  \<open>process_yield_or_return\<close>, which \<open>yield_handler\<close> and \<open>return_handler\<close> call with the
  event type.  Assertions are enabled, as they are unless the interpreter runs with
  \<open>-O\<close>.
\<close>

definition process_yield_or_return ::
  "(CodeType \<Rightarrow> bool) \<Rightarrow> ('v \<Rightarrow> TypeInfo) \<Rightarrow> (Sample \<Rightarrow> TypeInfo list) \<Rightarrow> Options \<Rightarrow>
   Observations \<Rightarrow> Frame option \<Rightarrow> CodeType \<Rightarrow> 'v \<Rightarrow> event \<Rightarrow>
   Observations \<times> (error + monitoring option)" where
  "process_yield_or_return should_skip_function get_value_type process options self current code
     return_value event_type =
     (if should_skip_function code then (self, Inr (Some DISABLE))
      else
        (case exit_frame current of
           Some frame \<Rightarrow>
             if \<not> code_eq code (f_code frame) then (self, Inl AssertionError)
             else
               (case FuncInfo_init
                       [PStr (co_filename code), PInt (co_firstlineno code), PStr (co_qualname code)] of
                  Inl e \<Rightarrow> (self, Inl e)
                | Inr t \<Rightarrow>
                    (case correlate_signal get_value_type process options self t frame
                            return_value event_type of
                       (self', answer) \<Rightarrow> (self', Inr answer)))
         | None \<Rightarrow> (self, Inr (if sampling options \<and> False then Some DISABLE else None))))"

section \<open>The sampling timer (restart\_sampling)\<close>






section \<open>Notions used to state the properties\<close>

text \<open>
  The stripping as the spec words it: every runtime type handle in a descriptor is
  replaced by None, and module, name, generic arguments and callable metadata stay.
\<close>

fun erase_type_obj :: "TypeInfo \<Rightarrow> TypeInfo"
and erase_type_obj_arg :: "TypeArg \<Rightarrow> TypeArg" where
  "erase_type_obj (TypeInfo m n as f b t) = TypeInfo m n (map erase_type_obj_arg as) f b None"
| "erase_type_obj_arg (TI a) = TI (erase_type_obj a)"
| "erase_type_obj_arg (Lit s) = Lit s"

text \<open>No descriptor reachable from the node, the node included, carries a type handle.\<close>

fun no_type_obj :: "TypeInfo \<Rightarrow> bool"
and no_type_obj_args :: "TypeArg list \<Rightarrow> bool" where
  "no_type_obj (TypeInfo m n as f b t) = (t = None \<and> no_type_obj_args as)"
| "no_type_obj_args [] = True"
| "no_type_obj_args (TI a # rest) = (no_type_obj a \<and> no_type_obj_args rest)"
| "no_type_obj_args (Lit s # rest) = no_type_obj_args rest"

definition no_type_obj_ann :: "FuncAnnotation \<Rightarrow> bool" where
  "no_type_obj_ann ann = (list_all (\<lambda>a. no_type_obj (snd a)) (ann_args ann) \<and> no_type_obj (retval ann))"

text \<open>Every type handle reachable from the node is a truthy type object.\<close>

fun handles_truthy :: "TypeInfo \<Rightarrow> bool"
and handles_truthy_args :: "TypeArg list \<Rightarrow> bool" where
  "handles_truthy (TypeInfo m n as f b t) = ((t = None \<or> is_true t) \<and> handles_truthy_args as)"
| "handles_truthy_args [] = True"
| "handles_truthy_args (TI a # rest) = (handles_truthy a \<and> handles_truthy_args rest)"
| "handles_truthy_args (Lit s # rest) = handles_truthy_args rest"

text \<open>
  No descriptor reachable from the node refers to a function (\<open>func\<close> is None
  throughout), so the transformer \<open>T\<close> has nothing to replace in it; and the same for
  every tuple of every completed set of a store.
\<close>

fun callable_free :: "TypeInfo \<Rightarrow> bool"
and callable_free_args :: "TypeArg list \<Rightarrow> bool" where
  "callable_free (TypeInfo m n as f b t) = (f = None \<and> callable_free_args as)"
| "callable_free_args [] = True"
| "callable_free_args (TI a # rest) = (callable_free a \<and> callable_free_args rest)"
| "callable_free_args (Lit s # rest) = callable_free_args rest"

definition callable_free_store :: "Observations \<Rightarrow> bool" where
  "callable_free_store self =
     list_all (\<lambda>entry. list_all (list_all callable_free) (snd entry)) (samples self)"

text \<open>
  A run of return signals against the store: each signal is \<open>(function, activation id,
  return type)\<close>; the result is the store at the end and the number of signals for which
  \<open>record_return\<close> answered True.
\<close>

fun record_returns ::
  "(Sample \<Rightarrow> TypeInfo list) \<Rightarrow> Observations \<Rightarrow> (FuncInfo \<times> int \<times> TypeInfo) list \<Rightarrow> Observations \<times> nat" where
  "record_returns process self [] = (self, 0)"
| "record_returns process self ((fn, fid, rt) # sigs) =
     (case record_return process self fn fid rt of
        (self', found) \<Rightarrow>
          (case record_returns process self' sigs of
             (self'', n) \<Rightarrow> (self'', (if found then 1 else 0) + n)))"

subsection \<open>Example values\<close>

text \<open>
  Descriptors as \<open>TypeInfo.from_type\<close> builds them in the observing process (the handle
  is the live class), two functions of a file \<open>m.py\<close>, and code objects and frames for
  them.
\<close>

definition int_ti :: TypeInfo where
  "int_ti = TypeInfo ''builtins'' ''int'' [] None False (Some (TypeObj 1 True))"

definition str_ti :: TypeInfo where
  "str_ti = TypeInfo ''builtins'' ''str'' [] None False (Some (TypeObj 2 True))"

definition none_ti :: TypeInfo where
  "none_ti = TypeInfo ''builtins'' ''NoneType'' [] None False (Some (TypeObj 3 True))"

definition list_int_ti :: TypeInfo where
  "list_int_ti = TypeInfo ''builtins'' ''list'' [TI int_ti] None False (Some (TypeObj 4 True))"

text \<open>
  The descriptor of a class \<open>Registry\<close> of \<open>m.py\<close> whose metaclass defines \<open>__len__\<close> as
  the number of registered entries, none so far: the class object is falsy.
\<close>

definition registry_ti :: TypeInfo where
  "registry_ti = TypeInfo ''m'' ''Registry'' [] None False (Some (TypeObj 5 False))"

definition f_info :: FuncInfo where
  "f_info = \<lparr>file_name = ''m.py'', func_name = ''f''\<rparr>"

definition g_info :: FuncInfo where
  "g_info = \<lparr>file_name = ''m.py'', func_name = ''g''\<rparr>"









definition pending_obs :: Observations where
  "pending_obs =
     \<lparr>functions_visited = [(f_info, [\<lparr>arg_name = ''a'', type_set = None\<rparr>])],
      pending_samples = [((f_info, 7), Sample_init [int_ti] None)],
      samples = []\<rparr>"







text \<open>
  Stores for \<open>collect_annotations\<close>.  In \<open>default_obs\<close> the function \<open>f(b=0)\<close> was called
  once without an explicit \<open>b\<close>.  In \<open>mixed_obs\<close> the samples of \<open>f\<close> disagree on arity,
  and \<open>g(x)\<close> has one consistent sample.  In \<open>nullary_obs\<close> the function \<open>f()\<close> returned a
  list of ints, in \<open>registry_obs\<close> it returned the class \<open>Registry\<close>'s instance.  In
  \<open>generator_obs\<close> the generator \<open>f()\<close> yielded an int, an int and a str and was
  abandoned, and a call of \<open>g()\<close> is pending without any yield.
\<close>

definition default_obs :: Observations where
  "default_obs =
     \<lparr>functions_visited = [(f_info, [\<lparr>arg_name = ''b'', type_set = Some int_ti\<rparr>])],
      pending_samples = [],
      samples = [(f_info, [[int_ti, none_ti]])]\<rparr>"

definition mixed_obs :: Observations where
  "mixed_obs =
     \<lparr>functions_visited = [(f_info, []), (g_info, [\<lparr>arg_name = ''x'', type_set = None\<rparr>])],
      pending_samples = [],
      samples = [(f_info, [[none_ti], [int_ti, none_ti]]), (g_info, [[int_ti, none_ti]])]\<rparr>"

definition nullary_obs :: Observations where
  "nullary_obs =
     \<lparr>functions_visited = [(f_info, [])],
      pending_samples = [],
      samples = [(f_info, [[list_int_ti]])]\<rparr>"

definition registry_obs :: Observations where
  "registry_obs =
     \<lparr>functions_visited = [(f_info, [])],
      pending_samples = [],
      samples = [(f_info, [[registry_ti]])]\<rparr>"


section \<open>Properties of the observation store\<close>

lemma length_delete_present:
  "distinct (map fst ps) \<Longrightarrow> map_of ps k = Some v \<Longrightarrow> Suc (length (AList.delete k ps)) = length ps"
proof (induction ps)
  case Nil
  then show ?case by simp
next
  case (Cons p ps)
  show ?case
  proof (cases "fst p = k")
    case True
    with Cons.prems have "k \<notin> fst ` set ps" by auto
    then have "AList.delete k ps = ps" by (simp add: delete_id)
    with True show ?thesis by (cases p) simp
  next
    case False
    with Cons show ?thesis by (cases p) auto
  qed
qed

lemma length_update_present:
  "k \<in> fst ` set ps \<Longrightarrow> length (AList.update k v ps) = length ps"
  by (induction ps) auto

lemma record_return_found:
  "map_of (pending_samples self) (fn, fid) = Some sample \<Longrightarrow>
   record_return process self fn fid rt =
     (self\<lparr>samples := samples_add fn (process (sample\<lparr>returns := Some rt\<rparr>)) (samples self),
           pending_samples := AList.delete (fn, fid) (pending_samples self)\<rparr>, True)"
  by (simp add: record_return_def)

lemma record_return_missing:
  "map_of (pending_samples self) (fn, fid) = None \<Longrightarrow>
   record_return process self fn fid rt = (self, False)"
  by (simp add: record_return_def)


lemma record_yield_found:
  "map_of (pending_samples self) (fn, fid) = Some sample \<Longrightarrow>
   record_yield self fn fid yt =
     (self\<lparr>pending_samples :=
             AList.update (fn, fid) (sample\<lparr>yields := List.insert yt (yields sample)\<rparr>)
               (pending_samples self)\<rparr>, True)"
  by (simp add: record_yield_def)

lemma record_return_distinct:
  "distinct (map fst (pending_samples self)) \<Longrightarrow>
   distinct (map fst (pending_samples (fst (record_return process self fn fid rt))))"
  by (auto simp: record_return_def distinct_delete split: option.splits)

text \<open>
  The keys of a dictionary are distinct; the store's operations keep the association list
  of pending samples that way.
\<close>

lemma record_start_distinct:
  "distinct (map fst (pending_samples self)) \<Longrightarrow>
   distinct (map fst (pending_samples (record_start self fn fid tys st)))"
  by (simp add: record_start_def distinct_update)

lemma record_yield_distinct:
  "distinct (map fst (pending_samples self)) \<Longrightarrow>
   distinct (map fst (pending_samples (fst (record_yield self fn fid yt))))"
  by (auto simp: record_yield_def distinct_update split: option.splits)

lemma record_return_length:
  assumes "distinct (map fst (pending_samples self))"
  shows "length (pending_samples self) =
     length (pending_samples (fst (record_return process self fn fid rt)))
       + (if snd (record_return process self fn fid rt) then 1 else 0)"
proof (cases "map_of (pending_samples self) (fn, fid)")
  case None
  then show ?thesis by (simp add: record_return_def)
next
  case (Some sample)
  from length_delete_present [OF assms Some] Some show ?thesis
    by (simp add: record_return_def)
qed

lemma record_returns_count:
  "distinct (map fst (pending_samples self)) \<Longrightarrow>
   length (pending_samples self) =
     length (pending_samples (fst (record_returns process self sigs)))
       + snd (record_returns process self sigs)"
proof (induction sigs arbitrary: self)
  case Nil
  then show ?case by simp
next
  case (Cons sg sigs)
  obtain fn fid rt where sg: "sg = (fn, fid, rt)" by (cases sg) auto
  let ?r = "record_return process self fn fid rt"
  have d: "distinct (map fst (pending_samples (fst ?r)))"
    using Cons.prems by (rule record_return_distinct)
  have 1: "length (pending_samples self) =
      length (pending_samples (fst ?r)) + (if snd ?r then 1 else 0)"
    using Cons.prems by (rule record_return_length)
  have 2: "length (pending_samples (fst ?r)) =
      length (pending_samples (fst (record_returns process (fst ?r) sigs)))
        + snd (record_returns process (fst ?r) sigs)"
    using d by (rule Cons.IH)
  show ?case using 1 2 by (simp add: sg split: prod.splits)
qed

lemma samples_add_member: "x \<in> set (samples_get (samples_add fn x smp) fn)"
  by (simp add: samples_add_def samples_get_def update_conv')

text \<open>
  C6.  A return signal whose key is pending finalizes that one sample: \<open>record_return\<close>
  sets the return type, adds the finalized tuple to the completed set of the function and
  removes the entry, so pending shrinks by exactly one; a second return signal for the
  same key finds nothing and changes nothing; over any run of return signals the number of
  entries that left pending is the number of signals answered True.  A yield signal for a
  pending key adds the type to the sample's yield set and leaves the sample pending and
  the completed sets as they were.
\<close>

theorem record_return_finalizes_once:
  assumes "distinct (map fst (pending_samples self))"
    and "map_of (pending_samples self) (fn, fid) = Some sample"
  shows "record_return process self fn fid rt =
           (self\<lparr>samples := samples_add fn (process (sample\<lparr>returns := Some rt\<rparr>)) (samples self),
                 pending_samples := AList.delete (fn, fid) (pending_samples self)\<rparr>, True)
       \<and> process (sample\<lparr>returns := Some rt\<rparr>)
           \<in> set (samples_get (samples (fst (record_return process self fn fid rt))) fn)
       \<and> map_of (pending_samples (fst (record_return process self fn fid rt))) (fn, fid) = None
       \<and> Suc (length (pending_samples (fst (record_return process self fn fid rt))))
           = length (pending_samples self)
       \<and> record_return process (fst (record_return process self fn fid rt)) fn fid rt'
           = (fst (record_return process self fn fid rt), False)
       \<and> length (pending_samples self) =
           length (pending_samples (fst (record_returns process self sigs)))
             + snd (record_returns process self sigs)
       \<and> record_yield self fn fid yt =
           (self\<lparr>pending_samples :=
                   AList.update (fn, fid) (sample\<lparr>yields := List.insert yt (yields sample)\<rparr>)
                     (pending_samples self)\<rparr>, True)
       \<and> map_of (pending_samples (fst (record_yield self fn fid yt))) (fn, fid)
           = Some (sample\<lparr>yields := List.insert yt (yields sample)\<rparr>)
       \<and> length (pending_samples (fst (record_yield self fn fid yt))) = length (pending_samples self)
       \<and> samples (fst (record_yield self fn fid yt)) = samples self"
proof -
  let ?r = "record_return process self fn fid rt"
  have r: "?r = (self\<lparr>samples := samples_add fn (process (sample\<lparr>returns := Some rt\<rparr>)) (samples self),
                 pending_samples := AList.delete (fn, fid) (pending_samples self)\<rparr>, True)"
    using assms(2) by (rule record_return_found)
  have gone: "map_of (pending_samples (fst ?r)) (fn, fid) = None"
    by (simp add: r delete_conv')
  have mem: "process (sample\<lparr>returns := Some rt\<rparr>) \<in> set (samples_get (samples (fst ?r)) fn)"
    by (simp add: r samples_add_member)
  have len: "Suc (length (pending_samples (fst ?r))) = length (pending_samples self)"
    using length_delete_present [OF assms] by (simp add: r)
  have again: "record_return process (fst ?r) fn fid rt' = (fst ?r, False)"
    using gone by (rule record_return_missing)
  have count: "length (pending_samples self) =
      length (pending_samples (fst (record_returns process self sigs)))
        + snd (record_returns process self sigs)"
    using assms(1) by (rule record_returns_count)
  have y: "record_yield self fn fid yt =
      (self\<lparr>pending_samples :=
              AList.update (fn, fid) (sample\<lparr>yields := List.insert yt (yields sample)\<rparr>)
                (pending_samples self)\<rparr>, True)"
    using assms(2) by (rule record_yield_found)
  have ykeep: "map_of (pending_samples (fst (record_yield self fn fid yt))) (fn, fid)
      = Some (sample\<lparr>yields := List.insert yt (yields sample)\<rparr>)"
    by (simp add: y update_conv')
  have "(fn, fid) \<in> fst ` set (pending_samples self)"
    using assms(2) by (metis domI dom_map_of_conv_image_fst)
  then have ylen: "length (pending_samples (fst (record_yield self fn fid yt))) = length (pending_samples self)"
    by (simp add: y length_update_present)
  have ysmp: "samples (fst (record_yield self fn fid yt)) = samples self"
    by (simp add: y)
  from r mem gone len again count y ykeep ylen ysmp show ?thesis by blast
qed

theorem record_return_finalizes_once_witness:
  "distinct (map fst (pending_samples pending_obs))
   \<and> map_of (pending_samples pending_obs) (f_info, 7) = Some (Sample_init [int_ti] None)
   \<and> record_return Sample_process pending_obs f_info 7 none_ti =
       (pending_obs\<lparr>samples := [(f_info, [[int_ti, none_ti]])], pending_samples := []\<rparr>, True)
   \<and> record_return Sample_process (fst (record_return Sample_process pending_obs f_info 7 none_ti))
         f_info 7 str_ti
       = (fst (record_return Sample_process pending_obs f_info 7 none_ti), False)
   \<and> length (pending_samples pending_obs) =
       length (pending_samples (fst (record_returns Sample_process pending_obs
                 [(f_info, 7, none_ti), (f_info, 7, none_ti), (g_info, 7, none_ti)])))
       + snd (record_returns Sample_process pending_obs
                 [(f_info, 7, none_ti), (f_info, 7, none_ti), (g_info, 7, none_ti)])
   \<and> map_of (pending_samples (fst (record_yield pending_obs f_info 7 str_ti))) (f_info, 7)
       = Some (Sample_init [int_ti] None\<lparr>yields := [str_ti]\<rparr>)"
proof -
  have d: "distinct (map fst (pending_samples pending_obs))"
    by (simp add: pending_obs_def)
  have p: "map_of (pending_samples pending_obs) (f_info, 7) = Some (Sample_init [int_ti] None)"
    by (simp add: pending_obs_def)
  have e: "samples_add f_info (Sample_process (Sample_init [int_ti] None\<lparr>returns := Some none_ti\<rparr>))
             (samples pending_obs) = [(f_info, [[int_ti, none_ti]])]"
    by (simp add: samples_add_def samples_get_def Sample_process_def Sample_init_def pending_obs_def)
  have k: "AList.delete (f_info, 7) (pending_samples pending_obs) = []"
    by (simp add: pending_obs_def)
  have y: "List.insert str_ti (yields (Sample_init [int_ti] None)) = [str_ti]"
    by (simp add: Sample_init_def)
  note t = record_return_finalizes_once [OF d p, of Sample_process none_ti str_ti
        "[(f_info, 7, none_ti), (f_info, 7, none_ti), (g_info, 7, none_ti)]" str_ti,
        unfolded e k y]
  from d p t show ?thesis by blast
qed

section \<open>Properties of the event handlers\<close>

lemma FuncInfo_init_three:
  "FuncInfo_init [PStr a, PInt i, PStr b] = Inl TypeError"
  by (simp add: FuncInfo_init_def)

lemma code_eq_refl: "code_eq code code"
  by (simp add: code_eq_def)

text \<open>
  C2.  \<open>FuncInfo\<close> is the pair of file name and qualified name, and a construction from
  these two components is valid; but both handlers call the constructor with three
  positional arguments (file name, first line number, qualified name), which the
  two-field dataclass refuses: whenever the frame walk succeeds for the signal's code,
  the handler ends in TypeError with the store untouched.
\<close>

theorem handlers_construct_FuncInfo_with_three_arguments:
  "FuncInfo_init [PStr (co_filename code), PStr (co_qualname code)]
     = Inr \<lparr>file_name = co_filename code, func_name = co_qualname code\<rparr>
   \<and> enter_handler (\<lambda>c. False) options self
         (Some (Frame c0 i0 a0 (Some (Frame code fid av back)))) code
     = (self, Inl TypeError)
   \<and> process_yield_or_return (\<lambda>c. False) get_value_type process options self
         (Some (Frame c0 i0 a0 (Some (Frame c1 i1 a1 (Some (Frame code fid av back))))))
         code return_value event_type
     = (self, Inl TypeError)"
  by (simp add: FuncInfo_init_def enter_handler_def process_yield_or_return_def
      enter_frame_def exit_frame_def code_eq_refl)




lemma short_stack_on_enter:
  "\<not> should_skip_function code \<Longrightarrow> enter_frame current = None \<Longrightarrow>
   enter_handler should_skip_function options self current code
     = (self, Inr (if sampling options then Some DISABLE else None))"
  by (simp add: enter_handler_def)





section \<open>Equality and hashing of descriptors\<close>

lemma dataclass_eq_structural:
  "TypeInfo_eq a b = (a = b)"
  "tuple_eq as bs = (as = bs)"
  "TypeArg_eq x y = (x = y)"
  by (induction a b and as bs and x y rule: TypeInfo_eq_tuple_eq_TypeArg_eq.induct) auto

text \<open>
  C3, as stated, fails: the descriptor of \<open>int\<close> with its live class as handle and the
  same descriptor with the handle stripped, or with another type object as handle, agree
  on module, name, generic arguments, \<open>func\<close> and \<open>is_bound\<close>, and compare unequal.
\<close>

theorem type_obj_takes_part_in_equality:
  "module int_ti = module (replace_type_obj int_ti None)
   \<and> name int_ti = name (replace_type_obj int_ti None)
   \<and> args int_ti = args (replace_type_obj int_ti None)
   \<and> func int_ti = func (replace_type_obj int_ti None)
   \<and> is_bound int_ti = is_bound (replace_type_obj int_ti None)
   \<and> \<not> TypeInfo_eq int_ti (replace_type_obj int_ti None)
   \<and> \<not> TypeInfo_eq int_ti (replace_type_obj int_ti (Some (TypeObj 6 True)))"
  by (simp add: int_ti_def replace_type_obj_def)

text \<open>
  C3, amended.  Equality and hashing are structural over all six declared fields: two
  descriptors compare equal exactly when module, name, generic arguments, \<open>func\<close>,
  \<open>is_bound\<close> and \<open>type_obj\<close> agree (the handle by identity), however they were built,
  and descriptors that compare equal hash equal.
\<close>

theorem TypeInfo_eq_compares_all_fields:
  "(TypeInfo_eq a b \<longleftrightarrow>
      module a = module b \<and> name a = name b \<and> args a = args b \<and> func a = func b
      \<and> is_bound a = is_bound b \<and> type_obj a = type_obj b)
   \<and> (TypeInfo_eq a b \<longrightarrow>
      TypeInfo_hash hstr hfunc hbool hobj htuple a = TypeInfo_hash hstr hfunc hbool hobj htuple b)"
proof -
  have "TypeInfo_eq a b = (a = b)" by (rule dataclass_eq_structural)
  then show ?thesis by (cases a; cases b) auto
qed

theorem TypeInfo_eq_compares_all_fields_witness:
  "TypeInfo_eq (TypeInfo ''builtins'' ''list'' [TI (TypeInfo ''builtins'' ''int'' [] None False (Some (TypeObj 1 True)))]
                  None False (Some (TypeObj 4 True))) list_int_ti
   \<and> (\<forall>hstr hfunc hbool hobj htuple.
        TypeInfo_hash hstr hfunc hbool hobj htuple
          (TypeInfo ''builtins'' ''list'' [TI (TypeInfo ''builtins'' ''int'' [] None False (Some (TypeObj 1 True)))]
             None False (Some (TypeObj 4 True)))
        = TypeInfo_hash hstr hfunc hbool hobj htuple list_int_ti)"
proof -
  let ?a = "TypeInfo ''builtins'' ''list'' [TI (TypeInfo ''builtins'' ''int'' [] None False (Some (TypeObj 1 True)))]
              None False (Some (TypeObj 4 True))"
  have fields: "module ?a = module list_int_ti \<and> name ?a = name list_int_ti
      \<and> args ?a = args list_int_ti \<and> func ?a = func list_int_ti
      \<and> is_bound ?a = is_bound list_int_ti \<and> type_obj ?a = type_obj list_int_ti"
    by (simp add: list_int_ti_def int_ti_def)
  have e: "TypeInfo_eq ?a list_int_ti"
    using TypeInfo_eq_compares_all_fields [of ?a list_int_ti, THEN conjunct1] fields by blast
  have h: "TypeInfo_hash hstr hfunc hbool hobj htuple ?a
      = TypeInfo_hash hstr hfunc hbool hobj htuple list_int_ti" for hstr hfunc hbool hobj htuple
    using TypeInfo_eq_compares_all_fields [of ?a list_int_ti hstr hfunc hbool hobj htuple,
        THEN conjunct2, THEN mp, OF e] .
  from e h show ?thesis by blast
qed

section \<open>Properties of annotation collection\<close>



lemma ArgInfo_has_no_default: "ArgInfo_getattr arg ''default'' = Inl AttributeError"
  by (simp add: ArgInfo_getattr_def)

lemma index_first: "index (s # signature) 0 = Inr s"
  by (simp add: index_def)

lemma annotate_first_arg:
  "annotate_arg union_ts (s # signature) (0, arg) = Inl AttributeError"
  by (simp add: annotate_arg_def index_first ArgInfo_has_no_default)

lemma union_typeset_single: "union_typeset [t] = t"
  by (simp add: union_typeset_def)

lemma generalize_single: "generalize [r] = Some r"
proof -
  have "map (\<lambda>i. union_typeset (map (\<lambda>s. s ! i) [r])) [0..<length r] = map ((!) r) [0..<length r]"
    by (simp add: union_typeset_single)
  then show ?thesis by (simp add: generalize_def map_nth)
qed

lemma T_visit_callable_free:
  "callable_free node \<Longrightarrow> T_visit gen union_ts self node = ([], Inr node)"
  "callable_free_args as \<Longrightarrow> T_visit_args gen union_ts self as = ([], Inr as)"
  by (induction node and as rule: callable_free_callable_free_args.induct) simp_all

lemma visit_tuple_callable_free:
  "list_all callable_free s \<Longrightarrow> visit_tuple gen union_ts self s = ([], Inr s)"
  by (induction s) (simp_all add: T_visit_callable_free)

lemma transform_set_callable_free:
  "list_all (list_all callable_free) ss \<Longrightarrow> transform_set gen union_ts self k ss = (self, [], None)"
  by (induction ss) (simp_all add: transform_sample_def visit_tuple_callable_free)

lemma transform_keys_callable_free:
  "\<forall>k \<in> set ks. list_all (list_all callable_free) (samples_get (samples self) k) \<Longrightarrow>
   transform_keys gen union_ts self ks = (self, [], None)"
  by (induction ks) (simp_all add: transform_set_callable_free)

lemma transform_types_callable_free:
  assumes "callable_free_store self"
  shows "transform_types gen union_ts self = (self, [], None)"
proof -
  have "list_all (list_all callable_free) (samples_get (samples self) k)" for k
  proof (cases "map_of (samples self) k")
    case None
    then show ?thesis by (simp add: samples_get_def)
  next
    case (Some ss)
    then have "(k, ss) \<in> set (samples self)" by (rule map_of_SomeD)
    with assms have "list_all (list_all callable_free) ss"
      by (auto simp: callable_free_store_def list_all_iff)
    with Some show ?thesis by (simp add: samples_get_def)
  qed
  then show ?thesis
    by (simp add: transform_types_def transform_keys_callable_free)
qed












text \<open>
  C1.  \<open>mk_annotation\<close> reads \<open>arg.default\<close>, but an ArgInfo has the attributes
  \<open>arg_name\<close> and \<open>type_set\<close> only (record\_function stores the default's type in
  \<open>type_set\<close>): for every visited function with at least one argument whose samples
  generalize to a non-empty signature, \<open>mk_annotation\<close> ends in AttributeError and no
  annotation is produced, whatever \<open>generalize\<close> and \<open>union_typeset\<close> compute.
\<close>

theorem mk_annotation_reads_missing_default:
  assumes "map_of (functions_visited self) t = Some (arg # arginfos)"
    and "gen (samples_get (samples self) t) = Some (s # signature)"
  shows "mk_annotation gen union_ts self t = ([], Inl AttributeError)"
  using assms by (simp add: mk_annotation_def annotate_first_arg)

theorem mk_annotation_reads_missing_default_witness:
  "map_of (functions_visited default_obs) f_info = Some [\<lparr>arg_name = ''b'', type_set = Some int_ti\<rparr>]
   \<and> generalize (samples_get (samples default_obs) f_info) = Some [int_ti, none_ti]
   \<and> mk_annotation generalize union_typeset default_obs f_info = ([], Inl AttributeError)
   \<and> collect_annotations generalize union_typeset Sample_process default_obs
       = (default_obs, [], Inl AttributeError)"
proof -
  have v: "map_of (functions_visited default_obs) f_info
      = Some [\<lparr>arg_name = ''b'', type_set = Some int_ti\<rparr>]"
    by (simp add: default_obs_def)
  have sg: "samples_get (samples default_obs) f_info = [[int_ti, none_ti]]"
    by (simp add: default_obs_def samples_get_def)
  have g: "generalize (samples_get (samples default_obs) f_info) = Some [int_ti, none_ti]"
    unfolding sg by (rule generalize_single)
  note m = mk_annotation_reads_missing_default [where gen = generalize and self = default_obs
      and t = f_info and union_ts = union_typeset, OF v g]
  have fp: "fold_pending Sample_process default_obs = default_obs"
    by (simp add: fold_pending_def default_obs_def)
  have tr: "transform_types generalize union_typeset default_obs = (default_obs, [], None)"
    by (simp add: transform_types_def default_obs_def samples_get_def transform_sample_def
        int_ti_def none_ti_def)
  have keys: "map fst (samples default_obs) = [f_info]"
    by (simp add: default_obs_def)
  have c: "collect_annotations generalize union_typeset Sample_process default_obs
       = (default_obs, [], Inl AttributeError)"
    by (simp add: collect_annotations_def fp tr keys m)
  show ?thesis
    by (intro conjI) (rule v, rule g, rule m, rule c)
qed

lemma mk_annotation_ungeneralizable:
  "map_of (functions_visited self) t = Some arginfos \<Longrightarrow>
   gen (samples_get (samples self) t) = None \<Longrightarrow>
   mk_annotation gen union_ts self t
     = ([Error_generalizing t (map (map TypeInfo_str) (samples_get (samples self) t))], Inr None)"
  by (simp add: mk_annotation_def)

text \<open>
  C9.  The samples of \<open>f\<close> disagree on arity: \<open>mk_annotation\<close> prints the diagnostic and
  returns None for it, without raising.  But the annotation of the other function \<open>g(x)\<close>
  is not produced: \<open>mk_annotation\<close> raises AttributeError on \<open>arg.default\<close> for it, and
  \<open>collect_annotations\<close> ends with that exception instead of returning a dictionary.
\<close>

theorem other_function_not_annotated:
  "mk_annotation generalize union_typeset mixed_obs f_info
     = ([Error_generalizing f_info
           [[''builtins.NoneType''], [''builtins.int'', ''builtins.NoneType'']]], Inr None)
   \<and> mk_annotation generalize union_typeset mixed_obs g_info = ([], Inl AttributeError)
   \<and> collect_annotations generalize union_typeset Sample_process mixed_obs
       = (mixed_obs,
          [Error_generalizing f_info
             [[''builtins.NoneType''], [''builtins.int'', ''builtins.NoneType'']]],
          Inl AttributeError)"
proof -
  have vf: "map_of (functions_visited mixed_obs) f_info = Some []"
    by (simp add: mixed_obs_def)
  have sf: "samples_get (samples mixed_obs) f_info = [[none_ti], [int_ti, none_ti]]"
    by (simp add: mixed_obs_def samples_get_def)
  have gf: "generalize (samples_get (samples mixed_obs) f_info) = None"
    by (simp add: sf generalize_def)
  have str: "map (map TypeInfo_str) (samples_get (samples mixed_obs) f_info)
      = [[''builtins.NoneType''], [''builtins.int'', ''builtins.NoneType'']]"
    by (simp add: sf int_ti_def none_ti_def)
  have mf: "mk_annotation generalize union_typeset mixed_obs f_info
     = ([Error_generalizing f_info
           [[''builtins.NoneType''], [''builtins.int'', ''builtins.NoneType'']]], Inr None)"
    using mk_annotation_ungeneralizable [where gen = generalize and self = mixed_obs
        and t = f_info and union_ts = union_typeset, OF vf gf] by (simp add: str)
  have ne: "g_info \<noteq> f_info"
    by (simp add: g_info_def f_info_def)
  have vg: "map_of (functions_visited mixed_obs) g_info = Some [\<lparr>arg_name = ''x'', type_set = None\<rparr>]"
    using ne by (simp add: mixed_obs_def)
  have sg: "samples_get (samples mixed_obs) g_info = [[int_ti, none_ti]]"
    using ne by (simp add: mixed_obs_def samples_get_def)
  have mg: "mk_annotation generalize union_typeset mixed_obs g_info = ([], Inl AttributeError)"
    by (simp add: mk_annotation_def vg sg generalize_single annotate_first_arg)
  have fp: "fold_pending Sample_process mixed_obs = mixed_obs"
    by (simp add: fold_pending_def mixed_obs_def)
  have keys: "map fst (samples mixed_obs) = [f_info, g_info]"
    by (simp add: mixed_obs_def)
  have ts: "transform_sample generalize union_typeset mixed_obs k [none_ti] = (mixed_obs, [], None)"
    "transform_sample generalize union_typeset mixed_obs k [int_ti, none_ti] = (mixed_obs, [], None)"
    for k
    by (simp_all add: transform_sample_def int_ti_def none_ti_def)
  have tr: "transform_types generalize union_typeset mixed_obs = (mixed_obs, [], None)"
    by (simp add: transform_types_def keys sf sg ts)
  have c: "collect_annotations generalize union_typeset Sample_process mixed_obs
       = (mixed_obs,
          [Error_generalizing f_info
             [[''builtins.NoneType''], [''builtins.int'', ''builtins.NoneType'']]],
          Inl AttributeError)"
    by (simp add: collect_annotations_def fp tr keys mf mg)
  show ?thesis
    by (intro conjI) (rule mf, rule mg, rule c)
qed

lemma RemoveTypeObj_visit_is_Transformer_visit:
  "RemoveTypeObj_visit node =
     Transformer_visit RemoveTypeObj_visit
       (if is_true (type_obj node) then replace_type_obj node None else node)"
proof (cases node)
  case (TypeInfo m n as f b t)
  have e: "map (\<lambda>arg. case arg of TI a \<Rightarrow> TI (RemoveTypeObj_visit a) | Lit s \<Rightarrow> Lit s) as
      = map RemoveTypeObj_visit_arg as"
    by (rule map_cong) (auto split: TypeArg.splits)
  show ?thesis
    unfolding TypeInfo
    by (cases "map RemoveTypeObj_visit_arg as = as")
       (simp_all add: Transformer_visit_def Let_def replace_type_obj_def replace_args_def e)
qed

lemma handles_truthy_args_iff:
  "handles_truthy_args as = (\<forall>a \<in> set as. case a of TI t \<Rightarrow> handles_truthy t | Lit s \<Rightarrow> True)"
proof (induction as)
  case Nil
  then show ?case by simp
next
  case (Cons a as)
  then show ?case by (cases a) simp_all
qed

text \<open>Where every handle is a truthy type object, the visit strips all of them.\<close>

lemma RemoveTypeObj_visit_truthy:
  "handles_truthy node \<Longrightarrow> RemoveTypeObj_visit node = erase_type_obj node"
  "(case arg of TI t \<Rightarrow> handles_truthy t | Lit s \<Rightarrow> True) \<Longrightarrow>
     RemoveTypeObj_visit_arg arg = erase_type_obj_arg arg"
proof (induction node and arg rule: RemoveTypeObj_visit_RemoveTypeObj_visit_arg.induct)
  case (1 m n as f b t)
  from "1.prems" have "\<forall>a \<in> set as. case a of TI t \<Rightarrow> handles_truthy t | Lit s \<Rightarrow> True"
    by (simp add: handles_truthy_args_iff)
  with "1.IH" have e: "map RemoveTypeObj_visit_arg as = map erase_type_obj_arg as"
    by (auto intro: map_cong)
  from "1.prems" have t: "t = None \<or> is_true t" by simp
  show ?case
    using t
    by (cases "map erase_type_obj_arg as = as")
       (auto simp add: Let_def replace_args_def replace_type_obj_def e is_true_def)
next
  case (2 a)
  then show ?case by simp
next
  case (3 s)
  then show ?case by simp
qed

text \<open>
  C10.  The visit tests the truth value of the handle (\<^verbatim>\<open>if node.type_obj:\<close>), not whether
  it is None.  The handle of the falsy class \<open>Registry\<close> is therefore not replaced: the
  annotation that \<open>collect_annotations\<close> returns for \<open>f\<close> carries it in its return type,
  where the truthy handles of \<open>list\<close> and \<open>int\<close> are stripped from the annotation of the
  other store.
\<close>

theorem falsy_type_object_keeps_handle:
  "collect_annotations generalize union_typeset Sample_process registry_obs
     = (registry_obs, [], Inr [(f_info, \<lparr>ann_args = [], retval = registry_ti\<rparr>)])
   \<and> type_obj registry_ti = Some (TypeObj 5 False)
   \<and> \<not> no_type_obj_ann \<lparr>ann_args = [], retval = registry_ti\<rparr>
   \<and> RemoveTypeObj_visit registry_ti \<noteq> erase_type_obj registry_ti
   \<and> collect_annotations generalize union_typeset Sample_process nullary_obs
     = (nullary_obs, [],
        Inr [(f_info,
              \<lparr>ann_args = [],
               retval = TypeInfo ''builtins'' ''list''
                          [TI (TypeInfo ''builtins'' ''int'' [] None False None)] None False None\<rparr>)])"
proof -
  have fp: "fold_pending Sample_process registry_obs = registry_obs"
    "fold_pending Sample_process nullary_obs = nullary_obs"
    by (simp_all add: fold_pending_def registry_obs_def nullary_obs_def)
  have cf: "callable_free_store registry_obs" "callable_free_store nullary_obs"
    by (simp_all add: callable_free_store_def registry_obs_def nullary_obs_def registry_ti_def
        list_int_ti_def int_ti_def)
  have tr: "transform_types generalize union_typeset registry_obs = (registry_obs, [], None)"
    "transform_types generalize union_typeset nullary_obs = (nullary_obs, [], None)"
    using cf by (simp_all add: transform_types_callable_free)
  have v: "map_of (functions_visited registry_obs) f_info = Some []"
    "map_of (functions_visited nullary_obs) f_info = Some []"
    by (simp_all add: registry_obs_def nullary_obs_def)
  have sg: "samples_get (samples registry_obs) f_info = [[registry_ti]]"
    "samples_get (samples nullary_obs) f_info = [[list_int_ti]]"
    by (simp_all add: registry_obs_def nullary_obs_def samples_get_def)
  have keys: "map fst (samples registry_obs) = [f_info]" "map fst (samples nullary_obs) = [f_info]"
    by (simp_all add: registry_obs_def nullary_obs_def)
  have rv: "RemoveTypeObj_visit registry_ti = registry_ti"
    by (simp add: registry_ti_def is_true_def)
  have rl: "RemoveTypeObj_visit list_int_ti
      = TypeInfo ''builtins'' ''list'' [TI (TypeInfo ''builtins'' ''int'' [] None False None)] None False None"
    by (simp add: list_int_ti_def int_ti_def replace_type_obj_def replace_args_def is_true_def)
  have m1: "mk_annotation generalize union_typeset registry_obs f_info
      = ([], Inr (Some \<lparr>ann_args = [], retval = registry_ti\<rparr>))"
    by (simp add: mk_annotation_def v sg generalize_single index_def rv)
  have m2: "mk_annotation generalize union_typeset nullary_obs f_info
      = ([], Inr (Some \<lparr>ann_args = [],
            retval = TypeInfo ''builtins'' ''list''
                       [TI (TypeInfo ''builtins'' ''int'' [] None False None)] None False None\<rparr>))"
    by (simp add: mk_annotation_def v sg generalize_single index_def rl)
  have c1: "collect_annotations generalize union_typeset Sample_process registry_obs
     = (registry_obs, [], Inr [(f_info, \<lparr>ann_args = [], retval = registry_ti\<rparr>)])"
    by (simp add: collect_annotations_def fp tr keys m1)
  have c2: "collect_annotations generalize union_typeset Sample_process nullary_obs
     = (nullary_obs, [],
        Inr [(f_info,
              \<lparr>ann_args = [],
               retval = TypeInfo ''builtins'' ''list''
                          [TI (TypeInfo ''builtins'' ''int'' [] None False None)] None False None\<rparr>)])"
    by (simp add: collect_annotations_def fp tr keys m2)
  have o: "type_obj registry_ti = Some (TypeObj 5 False)"
    by (simp add: registry_ti_def)
  have n: "\<not> no_type_obj_ann \<lparr>ann_args = [], retval = registry_ti\<rparr>"
    by (simp add: no_type_obj_ann_def registry_ti_def)
  have d: "RemoveTypeObj_visit registry_ti \<noteq> erase_type_obj registry_ti"
    by (simp add: rv) (simp add: registry_ti_def)
  show ?thesis
    by (intro conjI) (rule c1, rule o, rule n, rule d, rule c2)
qed

section \<open>Properties of the sampling timer\<close>












end
